theory Spec2Isabelle
  imports Main
begin

section \<open>The EC2 auto start/stop handler (ec2-autostartstop/lambda\_function.py)\<close>

text \<open>
  The handler reads the clock, fetches the Japanese holiday calendar over HTTP, lists the
  EC2 instances tagged \<open>autostartstop\<close> and starts or stops each of them. Everything the
  Python code obtains from outside (the clock, the HTTP response, the answers of the EC2
  client, the event) is an input of the model; everything it does to the outside (log
  lines, calls of the EC2 client) is returned as a list of effects, in program order.
  A Python exception is a value \<open>Inl e\<close> of a sum type.
\<close>

subsection \<open>Exceptions\<close>

text \<open>
  The exceptions the code can meet. All of them are subclasses of Python's
  \<open>Exception\<close>, which is what every \<open>except Exception\<close> clause of the source catches.
\<close>

datatype exn =
    TypeError
  | AttributeError
  | IndexError
  | URLError
  | UnicodeDecodeError
  | JSONDecodeError
  | ClientError string

subsection \<open>Calendar arithmetic of \<open>datetime\<close>\<close>

text \<open>
  \<open>datetime.now(JST)\<close> turns the instant read from the system clock into the fields of
  the proleptic Gregorian calendar at the offset of the time zone. An instant is a number
  of whole seconds since 1970-01-01T00:00:00Z (the fraction of a second changes none of
  the fields used here). The functions below follow the standard library's own
  \<open>_is_leap\<close>, \<open>_days_before_year\<close>, \<open>_days_before_month\<close>, \<open>_ymd2ord\<close> and
  \<open>_ord2ymd\<close>. Integer division and remainder take the floor in HOL as they do in Python,
  so a negative instant needs no special case.
\<close>

record datetime =
  year :: int
  month :: int
  day :: int
  hour :: int
  minute :: int
  second :: int

definition is_leap :: "int \<Rightarrow> bool" where
  "is_leap y = (if y mod 4 = 0 then (if y mod 100 = 0 then y mod 400 = 0 else True) else False)"

definition days_before_year :: "int \<Rightarrow> int" where
  "days_before_year y = (y - 1) * 365 + (y - 1) div 4 - (y - 1) div 100 + (y - 1) div 400"

definition DAYS_IN_MONTH :: "int list" where
  "DAYS_IN_MONTH = [-1, 31, 28, 31, 30, 31, 30, 31, 31, 30, 31, 30, 31]"

definition DAYS_BEFORE_MONTH :: "int list" where
  "DAYS_BEFORE_MONTH = [-1, 0, 31, 59, 90, 120, 151, 181, 212, 243, 273, 304, 334]"

definition days_before_month :: "int \<Rightarrow> int \<Rightarrow> int" where
  "days_before_month y m =
     DAYS_BEFORE_MONTH ! nat m + (if m > 2 \<and> is_leap y then 1 else 0)"

definition ymd2ord :: "int \<Rightarrow> int \<Rightarrow> int \<Rightarrow> int" where
  "ymd2ord y m d = days_before_year y + days_before_month y m + d"

definition ord2ymd :: "int \<Rightarrow> int \<times> int \<times> int" where
  "ord2ymd n0 =
     (let n = n0 - 1;
          n400 = n div 146097; n = n mod 146097;
          n100 = n div 36524; n = n mod 36524;
          n4 = n div 1461; n = n mod 1461;
          n1 = n div 365; n = n mod 365;
          y = n400 * 400 + 1 + n100 * 100 + n4 * 4 + n1
      in if n1 = 4 \<or> n100 = 4 then (y - 1, 12, 31)
         else
           let leapyear = (n1 = 3 \<and> (if n4 = 24 then n100 = 3 else True));
               m = (n + 50) div 32;
               preceding = DAYS_BEFORE_MONTH ! nat m + (if m > 2 \<and> leapyear then 1 else 0)
           in if preceding > n
              then let m' = m - 1;
                       preceding' =
                         preceding - (DAYS_IN_MONTH ! nat m' + (if m' = 2 \<and> leapyear then 1 else 0))
                   in (y, m', n - preceding' + 1)
              else (y, m, n - preceding + 1))"

text \<open>\<open>JST = timezone(timedelta(hours=9))\<close>: a time zone is its offset from UTC in seconds.\<close>

definition JST :: int where
  "JST = 9 * 3600"

text \<open>
  \<open>datetime.now(tz)\<close> at the instant \<open>t\<close>: the calendar fields of \<open>t\<close> plus the offset.
  719163 is the ordinal of 1970-01-01.
\<close>

definition datetime_now :: "int \<Rightarrow> int \<Rightarrow> datetime" where
  "datetime_now tz t =
     (let loc = t + tz;
          secs = loc mod 86400
      in case ord2ymd (loc div 86400 + 719163) of
           (y, m, d) \<Rightarrow>
             \<lparr>year = y, month = m, day = d,
              hour = secs div 3600, minute = secs mod 3600 div 60, second = secs mod 60\<rparr>)"

text \<open>\<open>date.weekday()\<close>: Monday is 0, Sunday is 6.\<close>

definition weekday :: "datetime \<Rightarrow> int" where
  "weekday dt = (ymd2ord (year dt) (month dt) (day dt) + 6) mod 7"

subsection \<open>Formatting numbers and dates\<close>

fun str_nat :: "nat \<Rightarrow> string" where
  "str_nat n =
     (if n < 10 then [''0123456789'' ! n]
      else str_nat (n div 10) @ [''0123456789'' ! (n mod 10)])"

declare str_nat.simps [simp del]

text \<open>\<open>str(i)\<close> of a Python \<open>int\<close>.\<close>

definition str_int :: "int \<Rightarrow> string" where
  "str_int i = (if i < 0 then ''-'' @ str_nat (nat (- i)) else str_nat (nat i))"

text \<open>A non-negative number in at least \<open>w\<close> decimal digits, padded with zeros on the left.\<close>

definition zero_pad :: "nat \<Rightarrow> int \<Rightarrow> string" where
  "zero_pad w i = (let s = str_nat (nat i) in replicate (w - length s) CHR ''0'' @ s)"

text \<open>
  \<open>today.strftime('%Y-%m-%d')\<close>. The year is written in four digits, which is what the
  C library does for the years 1000 to 9999.
\<close>

definition strftime_Ymd :: "datetime \<Rightarrow> string" where
  "strftime_Ymd dt =
     zero_pad 4 (year dt) @ ''-'' @ zero_pad 2 (month dt) @ ''-'' @ zero_pad 2 (day dt)"

subsection \<open>The decision functions\<close>

text \<open>
  \<open>determine_action\<close> reads the clock once; \<open>t\<close> is the instant of that reading.
  The default action is the string \<open>'start'\<close> or \<open>'stop'\<close>, as in the source.
\<close>

definition determine_action :: "int \<Rightarrow> string" where
  "determine_action t =
     (let h = hour (datetime_now JST t)
      in if 8 \<le> h \<and> h < 18 then ''start'' else ''stop'')"

definition should_start :: "string \<Rightarrow> string \<Rightarrow> bool" where
  "should_start tag_value default_action =
     (if default_action = ''start'' then tag_value \<in> set [''true'', ''start'', ''auto'']
      else False)"

definition should_stop :: "string \<Rightarrow> string \<Rightarrow> bool" where
  "should_stop tag_value default_action =
     (if default_action = ''stop'' then tag_value \<in> set [''true'', ''stop'', ''auto'']
      else False)"

subsection \<open>Values from outside: JSON, dictionaries, the EC2 answers\<close>

text \<open>
  A Python \<open>dict\<close> is an association list with distinct keys, in insertion order.
  \<open>dict_set\<close> is the assignment \<open>d[k] = v\<close>: an existing key keeps its place and takes
  the new value. \<open>dict_of_pairs\<close> is the dictionary a comprehension builds from a
  sequence of pairs.
\<close>

type_synonym 'v dict = "(string \<times> 'v) list"

fun dict_set :: "'v dict \<Rightarrow> string \<Rightarrow> 'v \<Rightarrow> 'v dict" where
  "dict_set [] k v = [(k, v)]"
| "dict_set ((k', v') # d) k v =
     (if k' = k then (k, v) # d else (k', v') # dict_set d k v)"

definition dict_of_pairs :: "(string \<times> 'v) list \<Rightarrow> 'v dict" where
  "dict_of_pairs kvs = foldl (\<lambda>d (k, v). dict_set d k v) [] kvs"

text \<open>\<open>d.get(k)\<close>: \<open>None\<close> when the key is absent.\<close>

definition dict_get :: "'v dict \<Rightarrow> string \<Rightarrow> 'v option" where
  "dict_get d k = map_of d k"

text \<open>
  A decoded JSON document, as \<open>json.loads\<close> returns it and as the Lambda runtime passes
  the event: an object is a \<open>dict\<close>, the other values have no \<open>get\<close> and no \<open>keys\<close>.
\<close>

datatype json =
    JNull
  | JBool bool
  | JNum int
  | JStr string
  | JArr "json list"
  | JObj "(string \<times> json) list"

text \<open>\<open>list(holidays_data.keys())\<close>\<close>

definition json_keys :: "json \<Rightarrow> exn + string list" where
  "json_keys j = (case j of JObj d \<Rightarrow> Inr (map fst d) | _ \<Rightarrow> Inl AttributeError)"

text \<open>\<open>event.get(k, dflt)\<close>\<close>

definition json_get :: "json \<Rightarrow> string \<Rightarrow> json \<Rightarrow> exn + json" where
  "json_get j k dflt =
     (case j of
        JObj d \<Rightarrow> Inr (case map_of d k of Some v \<Rightarrow> v | None \<Rightarrow> dflt)
      | _ \<Rightarrow> Inl AttributeError)"

text \<open>
  Indexing a Python list, \<open>xs[k]\<close>: an integer index counts from the end when it is
  negative and raises \<open>IndexError\<close> out of range; a string index raises \<open>TypeError\<close>.
\<close>

datatype index = IntIndex int | StrIndex string

definition list_getitem :: "'a list \<Rightarrow> index \<Rightarrow> exn + 'a" where
  "list_getitem xs k =
     (case k of
        StrIndex s \<Rightarrow> Inl TypeError
      | IntIndex i \<Rightarrow>
          if 0 \<le> i \<and> i < int (length xs) then Inr (xs ! nat i)
          else if i < 0 \<and> - int (length xs) \<le> i then Inr (xs ! nat (int (length xs) + i))
          else Inl IndexError)"

text \<open>
  One instance of a \<open>describe_instances\<close> response: its \<open>InstanceId\<close> and its \<open>Tags\<close>,
  a list of key and value pairs that is absent when the instance has no tag. A
  reservation is the list of its \<open>Instances\<close>.
\<close>

record ec2_instance =
  InstanceId :: string
  Tags :: "(string \<times> string) list option"

type_synonym filters = "(string \<times> string list) list"

text \<open>
  The EC2 client: what each of its three methods answers. \<open>Inl e\<close> is the method raising
  \<open>e\<close>; the response of a start or stop call is kept as the text the code logs.
\<close>

record ec2_client =
  client_describe_instances :: "filters \<Rightarrow> exn + ec2_instance list list"
  client_start_instances :: "string list \<Rightarrow> exn + string"
  client_stop_instances :: "string list \<Rightarrow> exn + string"

text \<open>
  The surroundings of one invocation. The clock is read three times, by
  \<open>determine_action\<close>, by \<open>is_japan_holiday\<close> and by \<open>get_japan_holidays\<close>; each reading
  is an instant of its own. \<open>urlopen_json\<close> is the outcome of opening the URL, reading
  and decoding the body and parsing it as JSON: the document, or the exception one of
  these steps raised.
\<close>

record env =
  clock_action :: int
  clock_today :: int
  clock_year :: int
  urlopen_json :: "string \<Rightarrow> exn + json"
  ec2 :: ec2_client

subsection \<open>Effects\<close>

type_synonym instance_info = "string \<times> string \<times> string dict"

datatype level = INFO | ERROR

text \<open>One constructor for each log line of the source, with the values it prints.\<close>

datatype message =
    MsgHolidayStopOnly
  | MsgDefaultAction string json
  | MsgHandlerFailed exn
  | MsgTodayIsHoliday string
  | MsgTodayIsWeekend
  | MsgHolidays int "string list"
  | MsgHolidaysFailed exn
  | MsgNoInstances
  | MsgInstance string string "string dict" string
  | MsgNoMatch string string string
  | MsgInstances "instance_info list"
  | MsgDescribeFailed exn
  | MsgStarting string "string list" "string dict"
  | MsgStarted string string
  | MsgStartFailed string exn
  | MsgStopping string "string list" "string dict"
  | MsgStopped string string
  | MsgStopFailed string exn

datatype effect =
    Log level message
  | HttpGet string
  | DescribeInstances filters
  | StartInstances "string list"
  | StopInstances "string list"

text \<open>The start and stop commands among the effects, in the order they were issued.\<close>

fun is_command :: "effect \<Rightarrow> bool" where
  "is_command (StartInstances ids) = True"
| "is_command (StopInstances ids) = True"
| "is_command _ = False"

definition commands :: "effect list \<Rightarrow> effect list" where
  "commands fx = filter is_command fx"

subsection \<open>The holiday calendar\<close>

text \<open>\<open>BASE_HOLIDAY_API_URL.format(year=year)\<close>\<close>

definition BASE_HOLIDAY_API_URL_format :: "int \<Rightarrow> string" where
  "BASE_HOLIDAY_API_URL_format y =
     ''https://holidays-jp.github.io/api/v1/'' @ str_int y @ ''/date.json''"

text \<open>
  \<open>get_japan_holidays\<close>: the whole fetch is inside \<open>try\<close>, and \<open>except Exception\<close> logs
  and returns the empty list. The result is the list of the keys of the JSON object.
\<close>

definition get_japan_holidays :: "env \<Rightarrow> string list \<times> effect list" where
  "get_japan_holidays env =
     (let y = year (datetime_now JST (clock_year env));
          holiday_url = BASE_HOLIDAY_API_URL_format y
      in case urlopen_json env holiday_url of
           Inl e \<Rightarrow> ([], [HttpGet holiday_url, Log ERROR (MsgHolidaysFailed e)])
         | Inr holidays_data \<Rightarrow>
             (case json_keys holidays_data of
                Inl e \<Rightarrow> ([], [HttpGet holiday_url, Log ERROR (MsgHolidaysFailed e)])
              | Inr holidays \<Rightarrow>
                  (holidays, [HttpGet holiday_url, Log INFO (MsgHolidays y holidays)])))"

text \<open>
  \<open>is_japan_holiday\<close>: when today's date is among the holidays, the log line of that
  branch evaluates \<open>holidays[today.strftime('%Y-%m-%d')]\<close> before \<open>return True\<close>;
  \<open>holidays\<close> is a list and the index a string. Nothing in the function catches an
  exception.
\<close>

definition is_japan_holiday :: "env \<Rightarrow> (exn + bool) \<times> effect list" where
  "is_japan_holiday env =
     (let today = datetime_now JST (clock_today env)
      in case get_japan_holidays env of
           (holidays, fx) \<Rightarrow>
             if strftime_Ymd today \<in> set holidays
             then (case list_getitem holidays (StrIndex (strftime_Ymd today)) of
                     Inl e \<Rightarrow> (Inl e, fx)
                   | Inr name \<Rightarrow> (Inr True, fx @ [Log INFO (MsgTodayIsHoliday name)]))
             else if weekday today \<ge> 5
             then (Inr True, fx @ [Log INFO MsgTodayIsWeekend])
             else (Inr False, fx))"

subsection \<open>Listing the tagged instances\<close>

text \<open>
  The two nested loops of \<open>get_ec2_instances_with_tag\<close>, with \<open>instances_info\<close> as the
  accumulator. \<open>if tag_value:\<close> holds for a string that is present and not empty.
\<close>

text \<open>\<open>{t['Key']: t['Value'] for t in i.get('Tags', [])}\<close>\<close>

definition instance_tags :: "ec2_instance \<Rightarrow> string dict" where
  "instance_tags i = dict_of_pairs (case Tags i of None \<Rightarrow> [] | Some ts \<Rightarrow> ts)"

fun scan_instances :: "string \<Rightarrow> ec2_instance list \<Rightarrow> instance_info list \<Rightarrow> instance_info list" where
  "scan_instances tag_key [] instances_info = instances_info"
| "scan_instances tag_key (i # rest) instances_info =
     (let tags = instance_tags i
      in scan_instances tag_key rest
           (case dict_get tags tag_key of
              None \<Rightarrow> instances_info
            | Some tag_value \<Rightarrow>
                if tag_value = [] then instances_info
                else instances_info @ [(InstanceId i, tag_value, tags)]))"

fun scan_reservations :: "string \<Rightarrow> ec2_instance list list \<Rightarrow> instance_info list \<Rightarrow> instance_info list" where
  "scan_reservations tag_key [] instances_info = instances_info"
| "scan_reservations tag_key (r # rest) instances_info =
     scan_reservations tag_key rest (scan_instances tag_key r instances_info)"

definition get_ec2_instances_with_tag :: "ec2_client \<Rightarrow> string \<Rightarrow> instance_info list \<times> effect list" where
  "get_ec2_instances_with_tag ec2_client tag_key =
     (let filters = [(''tag-key'', [tag_key]),
                     (''instance-state-name'', [''stopped'', ''running''])]
      in case client_describe_instances ec2_client filters of
           Inl e \<Rightarrow> ([], [DescribeInstances filters, Log ERROR (MsgDescribeFailed e)])
         | Inr reservations \<Rightarrow>
             (let instances_info = scan_reservations tag_key reservations []
              in (instances_info,
                  [DescribeInstances filters, Log INFO (MsgInstances instances_info)])))"

subsection \<open>Starting and stopping\<close>

definition start_instances :: "ec2_client \<Rightarrow> string list \<Rightarrow> string \<Rightarrow> string dict \<Rightarrow> effect list" where
  "start_instances client ids resource_type tags =
     [Log INFO (MsgStarting resource_type ids tags), StartInstances ids] @
     (case client_start_instances client ids of
        Inr response \<Rightarrow> [Log INFO (MsgStarted resource_type response)]
      | Inl e \<Rightarrow> [Log ERROR (MsgStartFailed resource_type e)])"

definition stop_instances :: "ec2_client \<Rightarrow> string list \<Rightarrow> string \<Rightarrow> string dict \<Rightarrow> effect list" where
  "stop_instances client ids resource_type tags =
     [Log INFO (MsgStopping resource_type ids tags), StopInstances ids] @
     (case client_stop_instances client ids of
        Inr response \<Rightarrow> [Log INFO (MsgStopped resource_type response)]
      | Inl e \<Rightarrow> [Log ERROR (MsgStopFailed resource_type e)])"

text \<open>The \<open>for\<close> loop of \<open>manage_ec2_instances\<close>.\<close>

fun manage_loop :: "ec2_client \<Rightarrow> string \<Rightarrow> instance_info list \<Rightarrow> effect list" where
  "manage_loop ec2_client default_action [] = []"
| "manage_loop ec2_client default_action ((instance_id, tag_value, all_tags) # rest) =
     Log INFO (MsgInstance instance_id tag_value all_tags default_action) #
     (if should_start tag_value default_action
      then start_instances ec2_client [instance_id] ''EC2'' all_tags
      else if should_stop tag_value default_action
      then stop_instances ec2_client [instance_id] ''EC2'' all_tags
      else [Log INFO (MsgNoMatch instance_id tag_value default_action)]) @
     manage_loop ec2_client default_action rest"

declare manage_loop.simps [simp del]

definition manage_ec2_instances :: "env \<Rightarrow> string \<Rightarrow> effect list" where
  "manage_ec2_instances env default_action =
     (case get_ec2_instances_with_tag (ec2 env) ''autostartstop'' of
        (instances_info, fx) \<Rightarrow>
          if instances_info = [] then fx @ [Log INFO MsgNoInstances]
          else fx @ manage_loop (ec2 env) default_action instances_info)"

subsection \<open>The handler\<close>

text \<open>
  The body of the \<open>try\<close> of \<open>lambda_handler\<close>. \<open>target in ['ec2', 'all']\<close> holds for
  these two strings only.
\<close>

definition lambda_handler_try :: "env \<Rightarrow> json \<Rightarrow> (exn + unit) \<times> effect list" where
  "lambda_handler_try env event =
     (let default_action = determine_action (clock_action env)
      in case is_japan_holiday env of
           (Inl e, fx1) \<Rightarrow> (Inl e, fx1)
         | (Inr holiday, fx1) \<Rightarrow>
             (case (if holiday then (''stop'', [Log INFO MsgHolidayStopOnly])
                    else (default_action, [])) of
                (default_action, fx2) \<Rightarrow>
                  (case json_get event ''target'' (JStr ''all'') of
                     Inl e \<Rightarrow> (Inl e, fx1 @ fx2)
                   | Inr target \<Rightarrow>
                       (let fx3 = [Log INFO (MsgDefaultAction default_action target)]
                        in if target \<in> set [JStr ''ec2'', JStr ''all'']
                           then (Inr (), fx1 @ fx2 @ fx3 @ manage_ec2_instances env default_action)
                           else (Inr (), fx1 @ fx2 @ fx3)))))"

text \<open>
  \<open>lambda_handler\<close>: \<open>except Exception\<close> logs the exception and the function returns
  \<open>None\<close>.
\<close>

definition lambda_handler :: "env \<Rightarrow> json \<Rightarrow> (exn + unit) \<times> effect list" where
  "lambda_handler env event =
     (case lambda_handler_try env event of
        (Inl e, fx) \<Rightarrow> (Inr (), fx @ [Log ERROR (MsgHandlerFailed e)])
      | (Inr u, fx) \<Rightarrow> (Inr u, fx))"

subsection \<open>Example invocations\<close>

text \<open>
  Three entries of the calendar the holiday service publishes for 2025, a small fleet, a
  client whose start call always raises, and four instants, all at 09:00 Japanese time:
  Wednesday 1 January 2025 (a holiday), Thursday 2 January (a working day), Saturday
  4 January, and Saturday 3 May (a holiday).
\<close>

definition holidays_2025 :: json where
  "holidays_2025 =
     JObj [(''2025-01-01'', JStr ''Ganjitsu''),
           (''2025-01-13'', JStr ''Seijin no Hi''),
           (''2025-05-03'', JStr ''Kenpo Kinenbi'')]"

definition fleet :: "ec2_instance list list" where
  "fleet =
     [[\<lparr>InstanceId = ''i-0a'', Tags = Some [(''autostartstop'', ''true'')]\<rparr>,
       \<lparr>InstanceId = ''i-0b'', Tags = Some [(''autostartstop'', '''')]\<rparr>],
      [\<lparr>InstanceId = ''i-0c'', Tags = Some [(''Name'', ''batch''), (''autostartstop'', ''auto'')]\<rparr>]]"

definition client_start_fails :: ec2_client where
  "client_start_fails =
     \<lparr>client_describe_instances = (\<lambda>filters. Inr fleet),
      client_start_instances = (\<lambda>ids. Inl (ClientError ''IncorrectInstanceState'')),
      client_stop_instances = (\<lambda>ids. Inr ''stopping'')\<rparr>"

definition env_at :: "int \<Rightarrow> (exn + json) \<Rightarrow> env" where
  "env_at t answer =
     \<lparr>clock_action = t, clock_today = t, clock_year = t,
      urlopen_json = (\<lambda>url. answer), ec2 = client_start_fails\<rparr>"

definition wed_1_jan_2025 :: int where
  "wed_1_jan_2025 = 1735689600"

definition thu_2_jan_2025 :: int where
  "thu_2_jan_2025 = 1735776000"

definition sat_4_jan_2025 :: int where
  "sat_4_jan_2025 = 1735948800"

definition sat_3_may_2025 :: int where
  "sat_3_may_2025 = 1746230400"

section \<open>Properties\<close>

subsection \<open>Auxiliary facts\<close>

lemma hour_datetime_now: "hour (datetime_now tz t) = (t + tz) mod 86400 div 3600"
  by (simp add: datetime_now_def Let_def split: prod.splits)

lemma hour_of_day: "(x::int) mod 86400 div 3600 = x div 3600 mod 24"
proof -
  have "x mod (3600 * 24) = 3600 * (x div 3600 mod 24) + x mod 3600"
    by (rule zmod_zmult2_eq) simp
  then have "x mod 86400 div 3600 = (3600 * (x div 3600 mod 24) + x mod 3600) div 3600"
    by simp
  also have "\<dots> = x div 3600 mod 24"
    by simp
  finally show ?thesis .
qed

lemma commands_start_instances:
  "filter is_command (start_instances c ids r tags) = [StartInstances ids]"
  by (simp add: start_instances_def split: sum.splits)

lemma commands_stop_instances:
  "filter is_command (stop_instances c ids r tags) = [StopInstances ids]"
  by (simp add: stop_instances_def split: sum.splits)

lemma commands_manage_loop:
  "commands (manage_loop c da infos) =
     concat (map (\<lambda>(instance_id, tag_value, all_tags).
                    if should_start tag_value da then [StartInstances [instance_id]]
                    else if should_stop tag_value da then [StopInstances [instance_id]]
                    else []) infos)"
  by (induction c da infos rule: manage_loop.induct)
     (simp_all add: manage_loop.simps commands_def commands_start_instances
        commands_stop_instances)

lemma manage_loop_append:
  "manage_loop c da (xs @ ys) = manage_loop c da xs @ manage_loop c da ys"
  by (induction c da xs rule: manage_loop.induct) (simp_all add: manage_loop.simps)

lemma commands_get_ec2_instances_with_tag:
  "filter is_command (snd (get_ec2_instances_with_tag c k)) = []"
  by (simp add: get_ec2_instances_with_tag_def Let_def split: sum.splits)

lemma commands_manage_ec2_instances:
  "commands (manage_ec2_instances env da) =
     commands (manage_loop (ec2 env) da
       (fst (get_ec2_instances_with_tag (ec2 env) ''autostartstop'')))"
proof (cases "get_ec2_instances_with_tag (ec2 env) ''autostartstop''")
  case (Pair infos fx)
  have "filter is_command fx = []"
    using commands_get_ec2_instances_with_tag [of "ec2 env" "''autostartstop''"] Pair by simp
  then show ?thesis
    by (simp add: manage_ec2_instances_def commands_def Pair manage_loop.simps(1))
qed

lemma scan_instances_eq:
  "scan_instances k xs acc =
     acc @ concat (map (\<lambda>i. case dict_get (instance_tags i) k of
                              None \<Rightarrow> []
                            | Some v \<Rightarrow> if v = [] then []
                                else [(InstanceId i, v, instance_tags i)]) xs)"
  by (induction xs arbitrary: acc) (simp_all add: Let_def split: option.splits)

lemma scan_reservations_eq:
  "scan_reservations k rs acc = acc @ scan_instances k (concat rs) []"
proof (induction rs arbitrary: acc)
  case Nil
  show ?case by simp
next
  case (Cons r rest)
  show ?case
    by (simp add: Cons.IH [of "scan_instances k r acc"])
       (simp add: scan_instances_eq [of k r acc] scan_instances_eq [of k "r @ concat rest" "[]"]
          scan_instances_eq [of k "concat rest" "[]"])
qed

lemma scan_instances_member:
  assumes "(a, v, t) \<in> set (scan_instances k xs [])"
  shows "\<exists>i \<in> set xs. InstanceId i = a \<and> v \<noteq> [] \<and> dict_get (instance_tags i) k = Some v"
  using assms
  by (auto simp: scan_instances_eq [of k xs "[]"] split: option.splits if_splits)

lemma get_ec2_instances_with_tag_member:
  assumes "(a, v, t) \<in> set (fst (get_ec2_instances_with_tag c k))"
  shows "\<exists>rs. client_describe_instances c
                 [(''tag-key'', [k]), (''instance-state-name'', [''stopped'', ''running''])] =
                 Inr rs \<and>
              (\<exists>i \<in> set (concat rs). InstanceId i = a \<and> v \<noteq> [] \<and>
                 dict_get (instance_tags i) k = Some v)"
proof (cases "client_describe_instances c
                 [(''tag-key'', [k]), (''instance-state-name'', [''stopped'', ''running''])]")
  case (Inl e)
  with assms show ?thesis
    by (simp add: get_ec2_instances_with_tag_def)
next
  case (Inr rs)
  with assms have "(a, v, t) \<in> set (scan_instances k (concat rs) [])"
    by (simp add: get_ec2_instances_with_tag_def Let_def scan_reservations_eq [of k rs "[]"])
  then show ?thesis
    using Inr scan_instances_member [of a v t k "concat rs"] by simp
qed

lemma command_in_manage_ec2_instances:
  assumes "is_command x" and "x \<in> set (manage_ec2_instances env da)"
  shows "\<exists>a v t. (a, v, t) \<in> set (fst (get_ec2_instances_with_tag (ec2 env) ''autostartstop'')) \<and>
           (x = StartInstances [a] \<or> x = StopInstances [a])"
proof -
  from assms have "x \<in> set (commands (manage_ec2_instances env da))"
    by (simp add: commands_def)
  then show ?thesis
    by (auto simp: commands_manage_ec2_instances commands_manage_loop split: if_splits)
qed

lemma fleet_infos:
  "get_ec2_instances_with_tag client_start_fails ''autostartstop'' =
     ([(''i-0a'', ''true'', [(''autostartstop'', ''true'')]),
       (''i-0c'', ''auto'', [(''Name'', ''batch''), (''autostartstop'', ''auto'')])],
      [DescribeInstances [(''tag-key'', [''autostartstop'']),
                          (''instance-state-name'', [''stopped'', ''running''])],
       Log INFO (MsgInstances
         [(''i-0a'', ''true'', [(''autostartstop'', ''true'')]),
          (''i-0c'', ''auto'', [(''Name'', ''batch''), (''autostartstop'', ''auto'')])])])"
  by (simp add: get_ec2_instances_with_tag_def client_start_fails_def fleet_def Let_def
      instance_tags_def dict_of_pairs_def dict_get_def)

lemmas calendar_defs =
  datetime_now_def JST_def ord2ymd_def Let_def DAYS_BEFORE_MONTH_def DAYS_IN_MONTH_def
  weekday_def ymd2ord_def days_before_year_def days_before_month_def is_leap_def
  strftime_Ymd_def zero_pad_def str_int_def str_nat.simps

lemma wed_1_jan_2025_date:
  "strftime_Ymd (datetime_now JST wed_1_jan_2025) = ''2025-01-01''"
  "weekday (datetime_now JST wed_1_jan_2025) = 2"
  "year (datetime_now JST wed_1_jan_2025) = 2025"
  by (simp_all add: wed_1_jan_2025_def calendar_defs)

lemma sat_4_jan_2025_date:
  "strftime_Ymd (datetime_now JST sat_4_jan_2025) = ''2025-01-04''"
  "weekday (datetime_now JST sat_4_jan_2025) = 5"
  "year (datetime_now JST sat_4_jan_2025) = 2025"
  by (simp_all add: sat_4_jan_2025_def calendar_defs)

lemma sat_3_may_2025_date:
  "strftime_Ymd (datetime_now JST sat_3_may_2025) = ''2025-05-03''"
  "weekday (datetime_now JST sat_3_may_2025) = 5"
  "year (datetime_now JST sat_3_may_2025) = 2025"
  by (simp_all add: sat_3_may_2025_def calendar_defs)

lemma env_at_simps:
  "clock_action (env_at t a) = t" "clock_today (env_at t a) = t" "clock_year (env_at t a) = t"
  "urlopen_json (env_at t a) u = a" "ec2 (env_at t a) = client_start_fails"
  by (simp_all add: env_at_def)

lemma url_2025:
  "BASE_HOLIDAY_API_URL_format 2025 = ''https://holidays-jp.github.io/api/v1/2025/date.json''"
  by (simp add: BASE_HOLIDAY_API_URL_format_def str_int_def str_nat.simps)

text \<open>The two ways through \<open>is_japan_holiday\<close>: today is among the holidays, or it is not.\<close>

lemma is_japan_holiday_listed:
  assumes "strftime_Ymd (datetime_now JST (clock_today env)) \<in> set (fst (get_japan_holidays env))"
  shows "is_japan_holiday env = (Inl TypeError, snd (get_japan_holidays env))"
  using assms
  by (cases "get_japan_holidays env") (simp add: is_japan_holiday_def Let_def list_getitem_def)

lemma is_japan_holiday_unlisted:
  assumes "strftime_Ymd (datetime_now JST (clock_today env)) \<notin> set (fst (get_japan_holidays env))"
  shows "is_japan_holiday env =
           (if 5 \<le> weekday (datetime_now JST (clock_today env))
            then (Inr True, snd (get_japan_holidays env) @ [Log INFO MsgTodayIsWeekend])
            else (Inr False, snd (get_japan_holidays env)))"
  using assms
  by (cases "get_japan_holidays env") (simp add: is_japan_holiday_def Let_def)

lemma weekend_unlisted_is_rest_day:
  assumes "5 \<le> weekday (datetime_now JST (clock_today env))"
      and "strftime_Ymd (datetime_now JST (clock_today env)) \<notin> set (fst (get_japan_holidays env))"
  shows "fst (is_japan_holiday env) = Inr True"
  using assms by (simp add: is_japan_holiday_unlisted)

lemma get_japan_holidays_2025:
  assumes "year (datetime_now JST t) = 2025"
  shows "get_japan_holidays (env_at t (Inr holidays_2025)) =
           ([''2025-01-01'', ''2025-01-13'', ''2025-05-03''],
            [HttpGet ''https://holidays-jp.github.io/api/v1/2025/date.json'',
             Log INFO (MsgHolidays 2025 [''2025-01-01'', ''2025-01-13'', ''2025-05-03''])])"
  by (simp add: get_japan_holidays_def env_at_simps assms url_2025 holidays_2025_def json_keys_def)

lemma sat_4_jan_2025_rest:
  "is_japan_holiday (env_at sat_4_jan_2025 (Inr holidays_2025)) =
     (Inr True,
      [HttpGet ''https://holidays-jp.github.io/api/v1/2025/date.json'',
       Log INFO (MsgHolidays 2025 [''2025-01-01'', ''2025-01-13'', ''2025-05-03'']),
       Log INFO MsgTodayIsWeekend])"
  by (simp add: is_japan_holiday_unlisted get_japan_holidays_2025 env_at_simps sat_4_jan_2025_date)

lemma wed_1_jan_2025_raises:
  "is_japan_holiday (env_at wed_1_jan_2025 (Inr holidays_2025)) =
     (Inl TypeError,
      [HttpGet ''https://holidays-jp.github.io/api/v1/2025/date.json'',
       Log INFO (MsgHolidays 2025 [''2025-01-01'', ''2025-01-13'', ''2025-05-03''])])"
  by (simp add: is_japan_holiday_listed get_japan_holidays_2025 env_at_simps wed_1_jan_2025_date)

lemma sat_3_may_2025_raises:
  "is_japan_holiday (env_at sat_3_may_2025 (Inr holidays_2025)) =
     (Inl TypeError,
      [HttpGet ''https://holidays-jp.github.io/api/v1/2025/date.json'',
       Log INFO (MsgHolidays 2025 [''2025-01-01'', ''2025-01-13'', ''2025-05-03''])])"
  by (simp add: is_japan_holiday_listed get_japan_holidays_2025 env_at_simps sat_3_may_2025_date)

text \<open>The body of the handler, by the outcome of \<open>is_japan_holiday\<close>.\<close>

lemma lambda_handler_try_returned:
  assumes "is_japan_holiday env = (Inr holiday, fx)"
      and "json_get event ''target'' (JStr ''all'') = Inr target"
  shows "lambda_handler_try env event =
           (Inr (),
            fx @ (if holiday then [Log INFO MsgHolidayStopOnly] else []) @
            [Log INFO (MsgDefaultAction
               (if holiday then ''stop'' else determine_action (clock_action env)) target)] @
            (if target \<in> {JStr ''ec2'', JStr ''all''}
             then manage_ec2_instances env
                    (if holiday then ''stop'' else determine_action (clock_action env))
             else []))"
  using assms by (simp add: lambda_handler_try_def Let_def)

lemma lambda_handler_try_raised:
  assumes "is_japan_holiday env = (Inl e, fx)"
  shows "lambda_handler_try env event = (Inl e, fx)"
  using assms by (simp add: lambda_handler_try_def Let_def)

lemma thu_2_jan_2025_date:
  "strftime_Ymd (datetime_now JST thu_2_jan_2025) = ''2025-01-02''"
  "weekday (datetime_now JST thu_2_jan_2025) = 3"
  "year (datetime_now JST thu_2_jan_2025) = 2025"
  by (simp_all add: thu_2_jan_2025_def calendar_defs)

lemma thu_2_jan_2025_working_day:
  "is_japan_holiday (env_at thu_2_jan_2025 (Inr holidays_2025)) =
     (Inr False,
      [HttpGet ''https://holidays-jp.github.io/api/v1/2025/date.json'',
       Log INFO (MsgHolidays 2025 [''2025-01-01'', ''2025-01-13'', ''2025-05-03''])])"
  by (simp add: is_japan_holiday_unlisted get_japan_holidays_2025 env_at_simps thu_2_jan_2025_date)

subsection \<open>The time window\<close>

text \<open>
  C3. At every instant, the hour \<open>determine_action\<close> looks at is the hour of the day nine
  hours ahead of UTC, and the function returns \<open>'start'\<close> exactly when that hour is at
  least 8 and below 18, and \<open>'stop'\<close> exactly when it is not.
\<close>

theorem determine_action_window:
  "hour (datetime_now JST t) = (t + 9 * 3600) div 3600 mod 24 \<and>
   (determine_action t = ''start'' \<longleftrightarrow>
      8 \<le> hour (datetime_now JST t) \<and> hour (datetime_now JST t) < 18) \<and>
   (determine_action t = ''stop'' \<longleftrightarrow>
      \<not> (8 \<le> hour (datetime_now JST t) \<and> hour (datetime_now JST t) < 18))"
proof -
  have "hour (datetime_now JST t) = (t + 9 * 3600) div 3600 mod 24"
    by (simp add: hour_datetime_now hour_of_day JST_def)
  then show ?thesis
    by (simp add: determine_action_def Let_def)
qed

theorem determine_action_window_witness:
  "hour (datetime_now JST wed_1_jan_2025) = 9 \<and> determine_action wed_1_jan_2025 = ''start''"
proof -
  have h: "hour (datetime_now JST wed_1_jan_2025) = 9"
    by (simp add: hour_datetime_now JST_def wed_1_jan_2025_def)
  show ?thesis
    using determine_action_window [of wed_1_jan_2025] h by simp
qed

subsection \<open>The policy table\<close>

text \<open>
  C2. When the default action is \<open>'start'\<close>, \<open>should_start\<close> holds exactly for the tag
  values \<open>true\<close>, \<open>start\<close> and \<open>auto\<close> (compared as they are written) and \<open>should_stop\<close>
  never holds, so the loop issues a start for these three values and nothing for any
  other value. When the default action is \<open>'stop'\<close>, \<open>should_stop\<close> holds exactly for
  \<open>true\<close>, \<open>stop\<close> and \<open>auto\<close> and \<open>should_start\<close> never holds, so the loop issues a stop
  for these three and nothing otherwise. In particular the tag value \<open>stop\<close> under the
  default action \<open>'start'\<close> issues nothing.
\<close>

theorem tag_value_resolution:
  "(should_start tag_value ''start'' \<longleftrightarrow> tag_value \<in> {''true'', ''start'', ''auto''}) \<and>
   \<not> should_stop tag_value ''start'' \<and>
   (should_stop tag_value ''stop'' \<longleftrightarrow> tag_value \<in> {''true'', ''stop'', ''auto''}) \<and>
   \<not> should_start tag_value ''stop'' \<and>
   commands (manage_loop c ''start'' [(i, tag_value, tags)]) =
     (if tag_value \<in> {''true'', ''start'', ''auto''} then [StartInstances [i]] else []) \<and>
   commands (manage_loop c ''stop'' [(i, tag_value, tags)]) =
     (if tag_value \<in> {''true'', ''stop'', ''auto''} then [StopInstances [i]] else []) \<and>
   commands (manage_loop c ''start'' [(i, ''stop'', tags)]) = []"
  by (simp add: commands_manage_loop should_start_def should_stop_def)

theorem tag_value_resolution_witness:
  "commands (manage_loop client_start_fails ''start'' [(''i-0a'', ''stop'', [])]) = [] \<and>
   commands (manage_loop client_start_fails ''stop'' [(''i-0a'', ''stop'', [])]) =
     [StopInstances [''i-0a'']] \<and>
   commands (manage_loop client_start_fails ''start'' [(''i-0a'', ''Auto'', [])]) = []"
  using tag_value_resolution [of "''stop''" client_start_fails "''i-0a''" "[]"]
    tag_value_resolution [of "''Auto''" client_start_fails "''i-0a''" "[]"]
  by simp

text \<open>
  C10. For every tag value and every default action string, \<open>should_start\<close> and
  \<open>should_stop\<close> do not both hold, and the loop issues at most one command for one
  instance.
\<close>

theorem start_stop_exclusive:
  "\<not> (should_start tag_value default_action \<and> should_stop tag_value default_action) \<and>
   length (commands (manage_loop c default_action [(i, tag_value, tags)])) \<le> 1"
  by (simp add: commands_manage_loop should_start_def should_stop_def)

theorem start_stop_exclusive_witness:
  "\<not> (should_start ''true'' ''start'' \<and> should_stop ''true'' ''start'') \<and>
   length (commands (manage_loop client_start_fails ''start'' [(''i-0a'', ''true'', [])])) \<le> 1"
  by (rule start_stop_exclusive)

subsection \<open>The loop over the fleet\<close>

text \<open>
  C7. Whatever the client answers to a start or a stop call, and so also when a call
  raises, \<open>manage_ec2_instances\<close> issues for every listed instance the command its tag
  value resolves to, in the order of the list; and what the loop does for the instances
  after any position is what it does for them alone.
\<close>

theorem manage_ec2_instances_every_command:
  "commands (manage_ec2_instances env default_action) =
     concat (map (\<lambda>(instance_id, tag_value, all_tags).
                    if should_start tag_value default_action then [StartInstances [instance_id]]
                    else if should_stop tag_value default_action then [StopInstances [instance_id]]
                    else [])
                 (fst (get_ec2_instances_with_tag (ec2 env) ''autostartstop''))) \<and>
   manage_loop c default_action (before @ after) =
     manage_loop c default_action before @ manage_loop c default_action after"
  by (simp add: commands_manage_ec2_instances commands_manage_loop manage_loop_append)

theorem manage_ec2_instances_every_command_witness:
  "client_start_instances (ec2 (env_at thu_2_jan_2025 (Inr holidays_2025))) [''i-0a''] =
     Inl (ClientError ''IncorrectInstanceState'') \<and>
   commands (manage_ec2_instances (env_at thu_2_jan_2025 (Inr holidays_2025)) ''start'') =
     [StartInstances [''i-0a''], StartInstances [''i-0c'']]"
  using manage_ec2_instances_every_command
    [of "env_at thu_2_jan_2025 (Inr holidays_2025)" "''start''" client_start_fails "[]" "[]"]
  by (simp add: env_at_def fleet_infos should_start_def) (simp add: client_start_fails_def)

text \<open>
  C9. When every instance of the response with the identifier \<open>x\<close> carries the tag
  \<open>autostartstop\<close> with the empty string as its value, no entry of the result of
  \<open>get_ec2_instances_with_tag\<close> has the identifier \<open>x\<close>, and \<open>manage_ec2_instances\<close>
  neither starts nor stops \<open>x\<close>.
\<close>

theorem empty_tag_value_excluded:
  assumes "\<And>rs. client_describe_instances (ec2 env)
                   [(''tag-key'', [''autostartstop'']),
                    (''instance-state-name'', [''stopped'', ''running''])] = Inr rs \<Longrightarrow>
                \<forall>i \<in> set (concat rs). InstanceId i = x \<longrightarrow>
                  dict_get (instance_tags i) ''autostartstop'' = Some ''''"
  shows "x \<notin> fst ` set (fst (get_ec2_instances_with_tag (ec2 env) ''autostartstop'')) \<and>
         StartInstances [x] \<notin> set (manage_ec2_instances env default_action) \<and>
         StopInstances [x] \<notin> set (manage_ec2_instances env default_action)"
proof -
  have absent: "(x, v, t) \<notin> set (fst (get_ec2_instances_with_tag (ec2 env) ''autostartstop''))"
    for v t
  proof
    assume "(x, v, t) \<in> set (fst (get_ec2_instances_with_tag (ec2 env) ''autostartstop''))"
    then obtain rs i where
      "client_describe_instances (ec2 env)
         [(''tag-key'', [''autostartstop'']),
          (''instance-state-name'', [''stopped'', ''running''])] = Inr rs"
      "i \<in> set (concat rs)" "InstanceId i = x" "v \<noteq> []"
      "dict_get (instance_tags i) ''autostartstop'' = Some v"
      using get_ec2_instances_with_tag_member [of x v t "ec2 env" "''autostartstop''"] by blast
    with assms [of rs] show False by auto
  qed
  have "x \<notin> fst ` set (fst (get_ec2_instances_with_tag (ec2 env) ''autostartstop''))"
    using absent by auto
  moreover have "StartInstances [x] \<notin> set (manage_ec2_instances env default_action)"
    using command_in_manage_ec2_instances [of "StartInstances [x]" env default_action] absent
    by auto
  moreover have "StopInstances [x] \<notin> set (manage_ec2_instances env default_action)"
    using command_in_manage_ec2_instances [of "StopInstances [x]" env default_action] absent
    by auto
  ultimately show ?thesis by simp
qed

theorem empty_tag_value_excluded_witness:
  "\<lparr>InstanceId = ''i-0b'', Tags = Some [(''autostartstop'', '''')]\<rparr> \<in> set (concat fleet) \<and>
   ''i-0b'' \<notin> fst ` set (fst (get_ec2_instances_with_tag
       (ec2 (env_at thu_2_jan_2025 (Inr holidays_2025))) ''autostartstop'')) \<and>
   StartInstances [''i-0b''] \<notin>
     set (manage_ec2_instances (env_at thu_2_jan_2025 (Inr holidays_2025)) ''start'') \<and>
   StopInstances [''i-0b''] \<notin>
     set (manage_ec2_instances (env_at thu_2_jan_2025 (Inr holidays_2025)) ''start'')"
proof -
  have h: "\<forall>i \<in> set (concat rs). InstanceId i = ''i-0b'' \<longrightarrow>
             dict_get (instance_tags i) ''autostartstop'' = Some ''''"
    if "client_describe_instances (ec2 (env_at thu_2_jan_2025 (Inr holidays_2025)))
          [(''tag-key'', [''autostartstop'']),
           (''instance-state-name'', [''stopped'', ''running''])] = Inr rs" for rs
  proof -
    from that have "rs = fleet"
      by (simp add: env_at_def client_start_fails_def)
    then show ?thesis
      by (simp add: fleet_def instance_tags_def dict_of_pairs_def dict_get_def)
  qed
  have "\<lparr>InstanceId = ''i-0b'', Tags = Some [(''autostartstop'', '''')]\<rparr> \<in> set (concat fleet)"
    by (simp add: fleet_def)
  then show ?thesis
    using empty_tag_value_excluded
      [of "env_at thu_2_jan_2025 (Inr holidays_2025)" "''i-0b''" "''start''", OF h]
    by simp
qed

subsection \<open>Rest days\<close>

text \<open>
  C4. For an event that is a dictionary: when \<open>is_japan_holiday\<close> returns \<open>True\<close>, the
  default action the handler logs and passes to \<open>manage_ec2_instances\<close> is \<open>'stop'\<close>,
  whatever \<open>determine_action\<close> returned; when it returns \<open>False\<close>, the default action
  is the one \<open>determine_action\<close> returned.
\<close>

theorem rest_day_forces_stop:
  assumes "json_get event ''target'' (JStr ''all'') = Inr target"
  shows "(fst (is_japan_holiday env) = Inr True \<longrightarrow>
            lambda_handler env event =
              (Inr (),
               snd (is_japan_holiday env) @
               [Log INFO MsgHolidayStopOnly, Log INFO (MsgDefaultAction ''stop'' target)] @
               (if target \<in> {JStr ''ec2'', JStr ''all''}
                then manage_ec2_instances env ''stop'' else []))) \<and>
         (fst (is_japan_holiday env) = Inr False \<longrightarrow>
            lambda_handler env event =
              (Inr (),
               snd (is_japan_holiday env) @
               [Log INFO (MsgDefaultAction (determine_action (clock_action env)) target)] @
               (if target \<in> {JStr ''ec2'', JStr ''all''}
                then manage_ec2_instances env (determine_action (clock_action env)) else [])))"
proof (cases "is_japan_holiday env")
  case (Pair r fx)
  show ?thesis
  proof (cases r)
    case (Inl e)
    with Pair show ?thesis by simp
  next
    case (Inr holiday)
    with Pair assms show ?thesis
      by (simp add: lambda_handler_def lambda_handler_try_returned [of env holiday fx event target])
  qed
qed

theorem rest_day_forces_stop_witness:
  "json_get (JObj []) ''target'' (JStr ''all'') = Inr (JStr ''all'') \<and>
   fst (is_japan_holiday (env_at sat_4_jan_2025 (Inr holidays_2025))) = Inr True \<and>
   determine_action (clock_action (env_at sat_4_jan_2025 (Inr holidays_2025))) = ''start'' \<and>
   lambda_handler (env_at sat_4_jan_2025 (Inr holidays_2025)) (JObj []) =
     (Inr (),
      snd (is_japan_holiday (env_at sat_4_jan_2025 (Inr holidays_2025))) @
      [Log INFO MsgHolidayStopOnly, Log INFO (MsgDefaultAction ''stop'' (JStr ''all''))] @
      manage_ec2_instances (env_at sat_4_jan_2025 (Inr holidays_2025)) ''stop'')"
proof -
  have t: "json_get (JObj []) ''target'' (JStr ''all'') = Inr (JStr ''all'')"
    by (simp add: json_get_def)
  have d: "determine_action (clock_action (env_at sat_4_jan_2025 (Inr holidays_2025))) = ''start''"
    by (simp add: env_at_simps determine_action_def hour_datetime_now JST_def sat_4_jan_2025_def)
  show ?thesis
    using rest_day_forces_stop
      [of "JObj []" "JStr ''all''" "env_at sat_4_jan_2025 (Inr holidays_2025)", OF t] t d
    by (simp add: sat_4_jan_2025_rest)
qed

text \<open>
  C1. Wednesday 1 January 2025 is a weekday and is in the holiday list the service
  returns. On that day \<open>is_japan_holiday\<close> does not return \<open>True\<close>: the log line of the
  holiday branch indexes the list of holidays with the date string, which raises
  \<open>TypeError\<close> before \<open>return True\<close> is reached. The handler catches the exception and
  issues no command.
\<close>

theorem listed_weekday_raises:
  "weekday (datetime_now JST wed_1_jan_2025) = 2 \<and>
   strftime_Ymd (datetime_now JST wed_1_jan_2025) \<in>
     set (fst (get_japan_holidays (env_at wed_1_jan_2025 (Inr holidays_2025)))) \<and>
   fst (is_japan_holiday (env_at wed_1_jan_2025 (Inr holidays_2025))) = Inl TypeError \<and>
   commands (snd (lambda_handler (env_at wed_1_jan_2025 (Inr holidays_2025)) (JObj []))) = []"
  by (simp add: wed_1_jan_2025_date get_japan_holidays_2025 wed_1_jan_2025_raises
      lambda_handler_def lambda_handler_try_raised commands_def)

text \<open>
  C5. Saturday 3 May 2025 is a weekend day that is also in the holiday list. On that day
  \<open>is_japan_holiday\<close> does not return \<open>True\<close>: the holiday branch is taken first and
  raises \<open>TypeError\<close>, so the weekend test is never reached. (With a list that does not
  contain the date, the empty list among them, a weekend day does give \<open>True\<close>:
  \<open>weekend_unlisted_is_rest_day\<close>.)
\<close>

theorem listed_weekend_raises:
  "weekday (datetime_now JST sat_3_may_2025) = 5 \<and>
   strftime_Ymd (datetime_now JST sat_3_may_2025) \<in>
     set (fst (get_japan_holidays (env_at sat_3_may_2025 (Inr holidays_2025)))) \<and>
   fst (is_japan_holiday (env_at sat_3_may_2025 (Inr holidays_2025))) = Inl TypeError"
  by (simp add: sat_3_may_2025_date get_japan_holidays_2025 sat_3_may_2025_raises)

subsection \<open>Failures\<close>

text \<open>
  C6. When opening, reading, decoding or parsing the holiday document raises, or the
  document is not a JSON object, \<open>get_japan_holidays\<close> logs the exception and returns
  the empty list; \<open>is_japan_holiday\<close> then returns normally, with \<open>True\<close> exactly on
  Saturdays and Sundays.
\<close>

theorem get_japan_holidays_fails_open:
  assumes "urlopen_json env
             (BASE_HOLIDAY_API_URL_format (year (datetime_now JST (clock_year env)))) = Inl e \<or>
           (\<exists>j. urlopen_json env
                  (BASE_HOLIDAY_API_URL_format (year (datetime_now JST (clock_year env)))) = Inr j \<and>
                json_keys j = Inl e)"
  shows "get_japan_holidays env =
           ([], [HttpGet (BASE_HOLIDAY_API_URL_format (year (datetime_now JST (clock_year env)))),
                 Log ERROR (MsgHolidaysFailed e)]) \<and>
         fst (is_japan_holiday env) = Inr (5 \<le> weekday (datetime_now JST (clock_today env)))"
proof -
  have g: "get_japan_holidays env =
           ([], [HttpGet (BASE_HOLIDAY_API_URL_format (year (datetime_now JST (clock_year env)))),
                 Log ERROR (MsgHolidaysFailed e)])"
    using assms by (auto simp: get_japan_holidays_def Let_def)
  then have "strftime_Ymd (datetime_now JST (clock_today env)) \<notin> set (fst (get_japan_holidays env))"
    by simp
  then have "fst (is_japan_holiday env) = Inr (5 \<le> weekday (datetime_now JST (clock_today env)))"
    by (simp add: is_japan_holiday_unlisted)
  with g show ?thesis by simp
qed

theorem get_japan_holidays_fails_open_witness:
  "get_japan_holidays (env_at sat_4_jan_2025 (Inl URLError)) =
     ([], [HttpGet ''https://holidays-jp.github.io/api/v1/2025/date.json'',
           Log ERROR (MsgHolidaysFailed URLError)]) \<and>
   fst (is_japan_holiday (env_at sat_4_jan_2025 (Inl URLError))) = Inr True"
proof -
  have h: "urlopen_json (env_at sat_4_jan_2025 (Inl URLError))
             (BASE_HOLIDAY_API_URL_format
               (year (datetime_now JST (clock_year (env_at sat_4_jan_2025 (Inl URLError)))))) =
           Inl URLError"
    by (simp add: env_at_simps)
  show ?thesis
    using get_japan_holidays_fails_open [of "env_at sat_4_jan_2025 (Inl URLError)" URLError] h
    by (simp add: env_at_simps sat_4_jan_2025_date url_2025)
qed

text \<open>
  C8. \<open>lambda_handler\<close> always returns normally; when the body of its \<open>try\<close> raises an
  exception, the effects of the handler are those of the body up to the exception,
  followed by one error log line that carries the exception.
\<close>

theorem lambda_handler_never_raises:
  "fst (lambda_handler env event) = Inr () \<and>
   (\<forall>e fx. lambda_handler_try env event = (Inl e, fx) \<longrightarrow>
      lambda_handler env event = (Inr (), fx @ [Log ERROR (MsgHandlerFailed e)]))"
  by (cases "lambda_handler_try env event") (auto simp: lambda_handler_def split: sum.splits)

theorem lambda_handler_never_raises_witness:
  "lambda_handler_try (env_at thu_2_jan_2025 (Inr holidays_2025)) JNull =
     (Inl AttributeError,
      [HttpGet ''https://holidays-jp.github.io/api/v1/2025/date.json'',
       Log INFO (MsgHolidays 2025 [''2025-01-01'', ''2025-01-13'', ''2025-05-03''])]) \<and>
   lambda_handler (env_at thu_2_jan_2025 (Inr holidays_2025)) JNull =
     (Inr (),
      [HttpGet ''https://holidays-jp.github.io/api/v1/2025/date.json'',
       Log INFO (MsgHolidays 2025 [''2025-01-01'', ''2025-01-13'', ''2025-05-03'']),
       Log ERROR (MsgHandlerFailed AttributeError)])"
proof -
  have t: "lambda_handler_try (env_at thu_2_jan_2025 (Inr holidays_2025)) JNull =
     (Inl AttributeError,
      [HttpGet ''https://holidays-jp.github.io/api/v1/2025/date.json'',
       Log INFO (MsgHolidays 2025 [''2025-01-01'', ''2025-01-13'', ''2025-05-03''])])"
    by (simp add: lambda_handler_try_def Let_def thu_2_jan_2025_working_day json_get_def)
  show ?thesis
    using lambda_handler_never_raises [of "env_at thu_2_jan_2025 (Inr holidays_2025)" JNull] t
    by simp
qed

end
